theory Spec2Isabelle
  imports Complex_Main
begin

section \<open>Doubles\<close>

text \<open>
  A C++ \<open>double\<close> is a finite number, an infinity or a NaN. The finite values are
  carried as reals. What the tests of the program look at is modelled here as the
  language defines it: \<open>std::isfinite\<close>, the comparisons (every comparison with a
  NaN is false), \<open>std::max\<close> and unary minus. The rounded operations \<open>+\<close>,
  \<open>*\<close>, \<open>/\<close> and \<open>std::exp\<close> are a parameter (\<open>fp_arith\<close>): every theorem below
  holds for every table of results, so for the rounding and the overflow of the machine
  too. The two zeros of a double are one value here.
\<close>

datatype double = Finite real | PInf | NInf | NaN

fun isfinite :: "double \<Rightarrow> bool" where
  "isfinite (Finite x) = True"
| "isfinite PInf = False"
| "isfinite NInf = False"
| "isfinite NaN = False"

fun fless :: "double \<Rightarrow> double \<Rightarrow> bool" where
  "fless NaN b = False"
| "fless a NaN = False"
| "fless (Finite x) (Finite y) = (x < y)"
| "fless (Finite x) PInf = True"
| "fless (Finite x) NInf = False"
| "fless PInf b = False"
| "fless NInf (Finite y) = True"
| "fless NInf PInf = True"
| "fless NInf NInf = False"

definition fgreater :: "double \<Rightarrow> double \<Rightarrow> bool" where
  "fgreater a b = fless b a"

fun feq :: "double \<Rightarrow> double \<Rightarrow> bool" where
  "feq NaN b = False"
| "feq a NaN = False"
| "feq a b = (a = b)"

definition fle :: "double \<Rightarrow> double \<Rightarrow> bool" where
  "fle a b = (fless a b \<or> feq a b)"

fun fneg :: "double \<Rightarrow> double" where
  "fneg (Finite x) = Finite (- x)"
| "fneg PInf = NInf"
| "fneg NInf = PInf"
| "fneg NaN = NaN"

text \<open>\<open>std::max(a, b)\<close> is \<open>(a < b) ? b : a\<close>.\<close>

definition fmax :: "double \<Rightarrow> double \<Rightarrow> double" where
  "fmax a b = (if fless a b then b else a)"

text \<open>\<open>double(n)\<close> of a container size.\<close>

definition double_of_nat :: "nat \<Rightarrow> double" where
  "double_of_nat n = Finite (real n)"

record fp_arith =
  fp_add :: "double \<Rightarrow> double \<Rightarrow> double"
  fp_mul :: "double \<Rightarrow> double \<Rightarrow> double"
  fp_div :: "double \<Rightarrow> double \<Rightarrow> double"
  fp_exp :: "double \<Rightarrow> double"

text \<open>
  One table of results, used to run the model on concrete inputs: the exact result on
  finite numbers (for \<open>exp\<close> the first terms of its series, which can be computed),
  and the IEEE results on infinities, NaN and division by zero.
\<close>

fun ex_add :: "double \<Rightarrow> double \<Rightarrow> double" where
  "ex_add NaN b = NaN"
| "ex_add a NaN = NaN"
| "ex_add (Finite x) (Finite y) = Finite (x + y)"
| "ex_add (Finite x) b = b"
| "ex_add a (Finite y) = a"
| "ex_add a b = (if a = b then a else NaN)"

definition inf_signed :: "bool \<Rightarrow> double" where
  "inf_signed neg = (if neg then NInf else PInf)"

fun is_negative :: "double \<Rightarrow> bool" where
  "is_negative (Finite x) = (x < 0)"
| "is_negative NInf = True"
| "is_negative a = False"

fun ex_mul :: "double \<Rightarrow> double \<Rightarrow> double" where
  "ex_mul NaN b = NaN"
| "ex_mul a NaN = NaN"
| "ex_mul (Finite x) (Finite y) = Finite (x * y)"
| "ex_mul a b =
     (if a = Finite 0 \<or> b = Finite 0 then NaN
      else inf_signed (is_negative a \<noteq> is_negative b))"

fun ex_div :: "double \<Rightarrow> double \<Rightarrow> double" where
  "ex_div NaN b = NaN"
| "ex_div a NaN = NaN"
| "ex_div (Finite x) (Finite y) =
     (if y = 0 then (if x = 0 then NaN else inf_signed (x < 0)) else Finite (x / y))"
| "ex_div (Finite x) b = Finite 0"
| "ex_div a (Finite y) = inf_signed (is_negative a \<noteq> (y < 0))"
| "ex_div a b = NaN"

fun ex_exp :: "double \<Rightarrow> double" where
  "ex_exp (Finite x) = Finite (1 + x + x ^ 2 / 2 + x ^ 3 / 6)"
| "ex_exp PInf = PInf"
| "ex_exp NInf = Finite 0"
| "ex_exp NaN = NaN"

definition ex_arith :: fp_arith where
  "ex_arith = \<lparr> fp_add = ex_add, fp_mul = ex_mul, fp_div = ex_div, fp_exp = ex_exp \<rparr>"

section \<open>Segments and the configuration\<close>

text \<open>
  \<open>tau_t\<close> (a point of imaginary time) is declared outside the two source files. It is
  the type parameter \<open>'t\<close>: its comparisons are a linear order, its subtraction is the
  \<open>-\<close> of the type, and its constants and conversions are fields of the environment.
\<close>

record 't segment_t =
  tau_c :: 't
  tau_cdag :: 't

record 't configuration_t =
  seglists :: "'t segment_t list list"

definition n_color :: "'t configuration_t \<Rightarrow> nat" where
  "n_color config = length (seglists config)"

section \<open>What the move uses from outside\<close>

text \<open>
  The random generator, the determinant manager (\<open>'D\<close> is the state of one
  determinant, with a pending trial when there is one), the overlap utilities, the
  work data and the sign of a configuration are declared outside the two source files.
  They are the fields of the environment, and the theorems hold for every environment.
  The random generator is a state \<open>'r\<close> that every draw returns updated. The product
  of a double and a time converts the time to a double (\<open>tau_double\<close>).
\<close>

record ('t, 'D, 'r) move_env =
  arith :: fp_arith
  tau_beta :: 't
  tau_zero :: 't
  tau_double :: "'t \<Rightarrow> double"
  rng_int :: "'r \<Rightarrow> nat \<Rightarrow> nat \<times> 'r"
  tau_random :: "'r \<Rightarrow> 't \<Rightarrow> 't \<times> 'r"
  is_full_line :: "'t segment_t \<Rightarrow> bool"
  seg_length :: "'t segment_t \<Rightarrow> 't"
  seg_less :: "'t segment_t \<Rightarrow> 't segment_t \<Rightarrow> bool"
  wd_mu :: "nat \<Rightarrow> double"
  wd_U :: "nat \<Rightarrow> nat \<Rightarrow> double"
  wd_has_Dt :: bool
  wd_K_real :: "double \<Rightarrow> nat \<Rightarrow> nat \<Rightarrow> double"
  overlap :: "'t segment_t list \<Rightarrow> 't segment_t \<Rightarrow> double"
  K_overlap :: "'t segment_t list \<Rightarrow> 't \<Rightarrow> 't \<Rightarrow> nat \<Rightarrow> nat \<Rightarrow> double"
  lower_bound :: "(nat \<Rightarrow> 't) \<Rightarrow> nat \<Rightarrow> 't \<Rightarrow> nat"
  det_size :: "'D \<Rightarrow> nat"
  get_x :: "'D \<Rightarrow> nat \<Rightarrow> 't \<times> nat"
  get_y :: "'D \<Rightarrow> nat \<Rightarrow> 't \<times> nat"
  try_insert :: "'D \<Rightarrow> nat \<Rightarrow> nat \<Rightarrow> 't \<times> nat \<Rightarrow> 't \<times> nat \<Rightarrow> double \<times> 'D"
  complete_operation :: "'D \<Rightarrow> 'D"
  reject_last_try :: "'D \<Rightarrow> 'D"
  config_sign :: "'t configuration_t \<Rightarrow> 'D list \<Rightarrow> double"
  check_invariants :: bool
  ctseg_debug :: bool
  check_invariant :: "'t configuration_t \<Rightarrow> 'D list \<Rightarrow> bool"

section \<open>The insert-segment move\<close>

text \<open>
  The members of \<open>insert_segment\<close>: the configuration and the determinants it refers
  to (\<open>wdata.dets\<close>), the random generator, and its own \<open>color\<close>, \<open>prop_seg\<close> and
  \<open>det_sign\<close>.
\<close>

record ('t, 'D, 'r) insert_segment =
  config :: "'t configuration_t"
  dets :: "'D list"
  rng :: 'r
  color :: nat
  prop_seg :: "'t segment_t"
  det_sign :: double

text \<open>The local variables of \<open>attempt\<close> at its last line.\<close>

record 't attempt_locals =
  wtau_left :: 't
  wtau_right :: 't
  window_length :: 't
  dt1 :: 't
  dt2 :: 't
  trace_ratio :: double
  det_ratio :: double
  prop_ratio :: double
  prod_w :: double

text \<open>Lines 18 to 30: the insertion window, for a list that is not a full line.\<close>

definition choose_window ::
  "('t, 'D, 'r) move_env \<Rightarrow> 't segment_t list \<Rightarrow> 'r \<Rightarrow> 't \<times> 't \<times> 'r" where
  "choose_window env sl r =
     (if sl \<noteq> [] then
        (let (seg_idx, r1) = rng_int env r (length sl);
             is_last_segment = (seg_idx = length sl - 1)
         in (tau_cdag (sl ! seg_idx),
             tau_c (sl ! (if is_last_segment then 0 else seg_idx + 1)),
             r1))
      else (tau_beta env, tau_zero env, r))"

text \<open>Lines 48 to 57: the loop over the colors is a fold over \<open>range(n_color)\<close>.\<close>

definition ln_trace_step ::
  "('t, 'D, 'r) move_env \<Rightarrow> 't configuration_t \<Rightarrow> nat \<Rightarrow> 't segment_t \<Rightarrow> nat \<Rightarrow> double \<Rightarrow> double" where
  "ln_trace_step env cfg col seg c acc =
     (let acc1 =
        (if c \<noteq> col
         then fp_add (arith env) acc
                (fp_mul (arith env) (fneg (wd_U env col c)) (overlap env (seglists cfg ! c) seg))
         else acc)
      in if wd_has_Dt env
         then fp_add (arith env) acc1 (K_overlap env (seglists cfg ! c) (tau_c seg) (tau_cdag seg) col c)
         else acc1)"

definition ln_trace_ratio ::
  "('t::minus, 'D, 'r) move_env \<Rightarrow> 't configuration_t \<Rightarrow> nat \<Rightarrow> 't segment_t \<Rightarrow> double" where
  "ln_trace_ratio env cfg col seg =
     (let l0 = fp_mul (arith env) (wd_mu env col) (tau_double env (seg_length env seg));
          l1 = fold (ln_trace_step env cfg col seg) [0..<n_color cfg] l0
      in if wd_has_Dt env
         then fp_add (arith env) l1
                (fneg (wd_K_real env (tau_double env (tau_c seg - tau_cdag seg)) col col))
         else l1)"

text \<open>Lines 60 to 66: the positions in the determinant and the trial insertion.\<close>

definition det_try_insert ::
  "('t, 'D, 'r) move_env \<Rightarrow> 'D \<Rightarrow> 't segment_t \<Rightarrow> double \<times> 'D" where
  "det_try_insert env D seg =
     (let det_index_c = lower_bound env (\<lambda>i. fst (get_y env D i)) (det_size env D) (tau_c seg);
          det_index_cdag = lower_bound env (\<lambda>i. fst (get_x env D i)) (det_size env D) (tau_cdag seg)
      in try_insert env D det_index_cdag det_index_c (tau_cdag seg, 0) (tau_c seg, 0))"

text \<open>Lines 70 to 73.\<close>

definition proposition_ratio :: "fp_arith \<Rightarrow> 'a list \<Rightarrow> double \<Rightarrow> double" where
  "proposition_ratio ar sl wlen =
     (let current_number_intervals = fmax (Finite 1) (double_of_nat (length sl));
          future_number_segments = fp_add ar (double_of_nat (length sl)) (Finite 1)
      in fp_div ar
           (fp_div ar (fp_mul ar (fp_mul ar current_number_intervals wlen) wlen)
              (if sl = [] then Finite 1 else Finite 2))
           future_number_segments)"

text \<open>Lines 18 to 37: the window, its length and the two times drawn in it.\<close>

definition draw_offsets ::
  "('t::minus, 'D, 'r) move_env \<Rightarrow> 't segment_t list \<Rightarrow> 'r \<Rightarrow> 't \<times> 't \<times> 't \<times> 't \<times> 't \<times> 'r" where
  "draw_offsets env sl r0 =
     (let (wl, wr, r1) = choose_window env sl r0;
          wlen = (if sl = [] then tau_beta env else wl - wr);
          (t1, r2) = tau_random env r1 wlen;
          (t2, r3) = tau_random env r2 wlen
      in (wl, wr, wlen, t1, t2, r3))"

text \<open>
  \<open>attempt\<close> up to its last line: \<open>Inl\<close> is one of the two early \<open>return 0\<close>, with the
  state at that point; \<open>Inr\<close> is the last line reached, with the local variables
  (\<open>dt1\<close> and \<open>dt2\<close> as they were drawn, before the swap) and the state (\<open>det_sign\<close>
  assigned).
\<close>

definition attempt_run ::
  "('t::{linorder,minus}, 'D, 'r) move_env \<Rightarrow> ('t, 'D, 'r) insert_segment
     \<Rightarrow> ('t, 'D, 'r) insert_segment + 't attempt_locals \<times> ('t, 'D, 'r) insert_segment" where
  "attempt_run env st =
     (let (col, r0) = rng_int env (rng st) (n_color (config st));
          sl = seglists (config st) ! col;
          st0 = st\<lparr>rng := r0, color := col\<rparr>
      in if sl \<noteq> [] \<and> is_full_line env (last sl) then Inl st0
         else
           (let (wl, wr, wlen, t1, t2, r3) = draw_offsets env sl r0
            in if t1 = t2 then Inl (st0\<lparr>rng := r3\<rparr>)
               else
                 (let (d1, d2) = (if t1 > t2 \<and> sl \<noteq> [] then (t2, t1) else (t1, t2));
                      seg = \<lparr>tau_c = wl - d1, tau_cdag = wl - d2\<rparr>;
                      tr = fp_exp (arith env) (ln_trace_ratio env (config st) col seg);
                      (dr, D') = det_try_insert env (dets st ! col) seg;
                      pr = proposition_ratio (arith env) sl (tau_double env wlen);
                      p = fp_mul (arith env) (fp_mul (arith env) tr dr) pr;
                      ds = (if fgreater dr (Finite 0) then Finite 1 else Finite (- 1))
                  in Inr (\<lparr>wtau_left = wl, wtau_right = wr, window_length = wlen,
                            dt1 = t1, dt2 = t2, trace_ratio = tr, det_ratio = dr,
                            prop_ratio = pr, prod_w = p\<rparr>,
                          st0\<lparr>rng := r3, prop_seg := seg,
                              dets := (dets st)[col := D'], det_sign := ds\<rparr>))))"

definition attempt ::
  "('t::{linorder,minus}, 'D, 'r) move_env \<Rightarrow> ('t, 'D, 'r) insert_segment
     \<Rightarrow> double \<times> ('t, 'D, 'r) insert_segment" where
  "attempt env st =
     (case attempt_run env st of
        Inl st' \<Rightarrow> (Finite 0, st')
      | Inr (l, st') \<Rightarrow> (if isfinite (prod_w l) then prod_w l else det_sign st', st'))"

text \<open>
  \<open>std::upper_bound\<close> over the whole list, as the standard library writes it: a binary
  search for the first position whose element is greater than \<open>v\<close>.
\<close>

function upper_bound_loop :: "('a \<Rightarrow> 'a \<Rightarrow> bool) \<Rightarrow> 'a list \<Rightarrow> 'a \<Rightarrow> nat \<Rightarrow> nat \<Rightarrow> nat" where
  "upper_bound_loop lt xs v first len =
     (if 0 < len then
        (let half = len div 2; middle = first + half
         in if lt v (xs ! middle) then upper_bound_loop lt xs v first half
            else upper_bound_loop lt xs v (middle + 1) (len - half - 1))
      else first)"
  by pat_completeness auto
termination
  by (relation "measure (\<lambda>(lt, xs, v, first, len). len)") auto

declare upper_bound_loop.simps [simp del]

definition upper_bound :: "('a \<Rightarrow> 'a \<Rightarrow> bool) \<Rightarrow> 'a list \<Rightarrow> 'a \<Rightarrow> nat" where
  "upper_bound lt xs v = upper_bound_loop lt xs v 0 (length xs)"

definition insert_at :: "nat \<Rightarrow> 'a \<Rightarrow> 'a list \<Rightarrow> 'a list" where
  "insert_at i v xs = take i xs @ v # drop i xs"

text \<open>
  Modelled from the spec: the macro \<open>ALWAYS_EXPECTS\<close> and the function
  \<open>check_invariant\<close> are declared outside the source files. A check that fails ends
  the run (the spec: the sign check is verified, "fatally aborting the run if not"). So
  \<open>accept\<close> either returns the sign ratio with the new state, or gives the check that
  ended the run: \<open>check_invariant\<close>, called when one of the two compile-time flags is
  set, or \<open>ALWAYS_EXPECTS\<close>.
\<close>

datatype fatal = Invariant_violated | Sign_violated

text \<open>Lines 93 to 98: the trial of the determinant is completed and the segment inserted.\<close>

definition accept_commit ::
  "('t, 'D, 'r) move_env \<Rightarrow> ('t, 'D, 'r) insert_segment \<Rightarrow> ('t, 'D, 'r) insert_segment" where
  "accept_commit env st =
     (let dets' = (dets st)[color st := complete_operation env (dets st ! color st)];
          sl = seglists (config st) ! color st;
          sl' = insert_at (upper_bound (seg_less env) sl (prop_seg st)) (prop_seg st) sl
      in st\<lparr>config := (config st)\<lparr>seglists := (seglists (config st))[color st := sl']\<rparr>,
            dets := dets'\<rparr>)"

definition accept ::
  "('t, 'D, 'r) move_env \<Rightarrow> ('t, 'D, 'r) insert_segment
     \<Rightarrow> fatal + double \<times> ('t, 'D, 'r) insert_segment" where
  "accept env st =
     (let initial_sign = config_sign env (config st) (dets st);
          st' = accept_commit env st
      in if (check_invariants env \<or> ctseg_debug env) \<and> \<not> check_invariant env (config st') (dets st')
         then Inl Invariant_violated
         else
           (let final_sign = config_sign env (config st') (dets st');
                sign_ratio = fp_div (arith env) final_sign initial_sign
            in if feq (fp_mul (arith env) sign_ratio (det_sign st)) (Finite 1)
               then Inr (sign_ratio, st')
               else Inl Sign_violated))"

definition reject :: "('t, 'D, 'r) move_env \<Rightarrow> ('t, 'D, 'r) insert_segment \<Rightarrow> ('t, 'D, 'r) insert_segment" where
  "reject env st = st\<lparr>dets := (dets st)[color st := reject_last_try env (dets st ! color st)]\<rparr>"

section \<open>An environment to run the move in\<close>

text \<open>
  Modelled from the spec: the determinant manager (\<open>det_manip\<close>, outside the source
  files) as the spec's interface describes it. It holds the row keys and the column
  keys, and at most one pending trial: \<open>try_insert\<close> leaves a pending trial and changes
  nothing else, \<open>complete_operation\<close> commits the pending trial, \<open>reject_last_try\<close>
  discards it. The value of the determinant ratio is not defined by the spec: it is the
  parameter \<open>ratio\<close>.
\<close>

record 't det_manager =
  det_x :: "('t \<times> nat) list"
  det_y :: "('t \<times> nat) list"
  last_try :: "(nat \<times> nat \<times> ('t \<times> nat) \<times> ('t \<times> nat)) option"

definition dm_try_insert ::
  "double \<Rightarrow> 't det_manager \<Rightarrow> nat \<Rightarrow> nat \<Rightarrow> 't \<times> nat \<Rightarrow> 't \<times> nat \<Rightarrow> double \<times> 't det_manager" where
  "dm_try_insert ratio D i j x y = (ratio, D\<lparr>last_try := Some (i, j, x, y)\<rparr>)"

definition dm_complete_operation :: "'t det_manager \<Rightarrow> 't det_manager" where
  "dm_complete_operation D =
     (case last_try D of
        None \<Rightarrow> D
      | Some (i, j, x, y) \<Rightarrow>
          \<lparr>det_x = insert_at i x (det_x D), det_y = insert_at j y (det_y D), last_try = None\<rparr>)"

definition dm_reject_last_try :: "'t det_manager \<Rightarrow> 't det_manager" where
  "dm_reject_last_try D = D\<lparr>last_try := None\<rparr>"

definition no_trial :: "'t det_manager \<Rightarrow> bool" where
  "no_trial D = (last_try D = None)"

text \<open>
  The random generator of the example is the list of the numbers it will draw. Times
  are integers from \<open>0\<close> to \<open>beta = 100\<close>; no subtraction of the examples wraps
  around.
\<close>

fun ex_rng_int :: "nat list \<Rightarrow> nat \<Rightarrow> nat \<times> nat list" where
  "ex_rng_int [] n = (0, [])"
| "ex_rng_int (k # ks) n = (k mod n, ks)"

fun ex_tau_random :: "nat list \<Rightarrow> int \<Rightarrow> int \<times> nat list" where
  "ex_tau_random [] w = (0, [])"
| "ex_tau_random (k # ks) w = (int k mod w, ks)"

definition ex_lower_bound :: "(nat \<Rightarrow> int) \<Rightarrow> nat \<Rightarrow> int \<Rightarrow> nat" where
  "ex_lower_bound f n v = length (filter (\<lambda>i. f i < v) [0..<n])"

definition ex_env :: "double \<Rightarrow> double \<Rightarrow> (int, int det_manager, nat list) move_env" where
  "ex_env ratio sg =
     \<lparr> arith = ex_arith, tau_beta = 100, tau_zero = 0,
       tau_double = (\<lambda>t. Finite (real_of_int t)),
       rng_int = ex_rng_int, tau_random = ex_tau_random,
       is_full_line = (\<lambda>s. tau_c s = 100 \<and> tau_cdag s = 0),
       seg_length = (\<lambda>s. tau_c s - tau_cdag s),
       seg_less = (\<lambda>a b. tau_c a > tau_c b),
       wd_mu = (\<lambda>c. Finite 0), wd_U = (\<lambda>a b. Finite 0), wd_has_Dt = False,
       wd_K_real = (\<lambda>t a b. Finite 0),
       overlap = (\<lambda>sl s. Finite 0), K_overlap = (\<lambda>sl a b c d. Finite 0),
       lower_bound = ex_lower_bound,
       det_size = (\<lambda>D. length (det_x D)),
       get_x = (\<lambda>D i. det_x D ! i), get_y = (\<lambda>D i. det_y D ! i),
       try_insert = dm_try_insert ratio,
       complete_operation = dm_complete_operation,
       reject_last_try = dm_reject_last_try,
       config_sign = (\<lambda>c d. sg),
       check_invariants = False, ctseg_debug = False,
       check_invariant = (\<lambda>c d. True) \<rparr>"

definition empty_det :: "int det_manager" where
  "empty_det = \<lparr>det_x = [], det_y = [], last_try = None\<rparr>"

definition one_det :: "int det_manager" where
  "one_det = \<lparr>det_x = [(40, 0)], det_y = [(20, 0)], last_try = None\<rparr>"

text \<open>
  States with one color: no segment, the segment \<open>{20, 40}\<close> (it wraps around, the
  window from 40 down to 20 is free), and a full line.
\<close>

definition ex_empty :: "nat list \<Rightarrow> (int, int det_manager, nat list) insert_segment" where
  "ex_empty draws =
     \<lparr> config = \<lparr>seglists = [[]]\<rparr>, dets = [empty_det], rng = draws, color = 0,
       prop_seg = \<lparr>tau_c = 0, tau_cdag = 0\<rparr>, det_sign = Finite 1 \<rparr>"

definition ex_one :: "nat list \<Rightarrow> (int, int det_manager, nat list) insert_segment" where
  "ex_one draws =
     \<lparr> config = \<lparr>seglists = [[\<lparr>tau_c = 20, tau_cdag = 40\<rparr>]]\<rparr>, dets = [one_det], rng = draws,
       color = 0, prop_seg = \<lparr>tau_c = 0, tau_cdag = 0\<rparr>, det_sign = Finite 1 \<rparr>"

definition ex_full :: "nat list \<Rightarrow> (int, int det_manager, nat list) insert_segment" where
  "ex_full draws =
     \<lparr> config = \<lparr>seglists = [[\<lparr>tau_c = 100, tau_cdag = 0\<rparr>]]\<rparr>, dets = [empty_det], rng = draws,
       color = 0, prop_seg = \<lparr>tau_c = 0, tau_cdag = 0\<rparr>, det_sign = Finite 1 \<rparr>"

text \<open>The state after the proposal of the segment \<open>{38, 35}\<close>, with a given \<open>det_sign\<close>.\<close>

definition ex_proposed :: "double \<Rightarrow> (int, int det_manager, nat list) insert_segment" where
  "ex_proposed ds =
     \<lparr>config = \<lparr>seglists = [[\<lparr>tau_c = 20, tau_cdag = 40\<rparr>]]\<rparr>,
       dets = [\<lparr>det_x = [(40, 0)], det_y = [(20, 0)], last_try = Some (0, 1, (35, 0), (38, 0))\<rparr>],
       rng = [], color = 0, prop_seg = \<lparr>tau_c = 38, tau_cdag = 35\<rparr>, det_sign = ds\<rparr>"

section \<open>The measure of G(tau) and F(tau)\<close>

text \<open>
  A histogram (one block of a \<open>block_gf\<close>) is the list of its bins, one per point of the
  mesh, and a bin is a matrix of numbers; \<open>g[k](i, j)\<close> is \<open>g ! k ! i ! j\<close>. The numbers
  are carried as doubles: the measure only adds doubles to them, divides them by a
  double and doubles them. An index outside a container is undefined behaviour in the
  source; here such an update changes nothing.
\<close>

type_synonym matrix = "double list list"

type_synonym gf = "matrix list"

type_synonym block_gf = "gf list"

record params_t =
  p_beta :: double
  p_measure_F_tau :: bool
  p_gf_struct :: "(string \<times> nat) list"
  p_n_tau_G :: nat

text \<open>The members of \<open>G_F_tau\<close> that the measure owns.\<close>

record G_F_tau =
  beta :: double
  measure_F_tau :: bool
  gf_struct :: "(string \<times> nat) list"
  G_tau :: block_gf
  F_tau :: block_gf
  Z :: double

text \<open>
  \<open>results_t\<close> is declared outside the source files. Its two histograms are optional
  here: \<open>None\<close> until \<open>collect_results\<close> assigns them.
\<close>

record results_t =
  res_G_tau :: "block_gf option"
  res_F_tau :: "block_gf option"

text \<open>
  What the measure uses from outside: the determinant manager, the utilities of
  imaginary time, the work data, the mesh (\<open>closest_mesh_pt\<close>, and \<open>delta\<close> for a mesh
  of a given number of points) and the reduction over the workers
  (\<open>mpi::all_reduce\<close> with the communicator).
\<close>

record ('t, 'D) measure_env =
  m_arith :: fp_arith
  m_tau_double :: "'t \<Rightarrow> double"
  m_det_size :: "'D \<Rightarrow> nat"
  m_get_x :: "'D \<Rightarrow> nat \<Rightarrow> 't \<times> nat"
  m_get_y :: "'D \<Rightarrow> nat \<Rightarrow> 't \<times> nat"
  inverse_matrix :: "'D \<Rightarrow> nat \<Rightarrow> nat \<Rightarrow> double"
  closest_mesh_pt :: "double \<Rightarrow> nat"
  mesh_delta :: "nat \<Rightarrow> double"
  block_to_color :: "nat \<Rightarrow> nat \<Rightarrow> nat"
  n_tau :: "'t \<Rightarrow> 't segment_t list \<Rightarrow> double"
  m_U :: "nat \<Rightarrow> nat \<Rightarrow> double"
  m_has_Dt :: bool
  m_has_Jperp :: bool
  K_overlap_Kprime :: "'t segment_t list \<Rightarrow> 't \<Rightarrow> nat \<Rightarrow> nat \<Rightarrow> double"
  K_overlap_Kprime_spin :: "'t segment_t list \<Rightarrow> 't \<Rightarrow> nat \<Rightarrow> nat \<Rightarrow> double"
  Kprime_0_real :: "nat \<Rightarrow> nat \<Rightarrow> double"
  Kprime_spin_0_real :: "nat \<Rightarrow> nat \<Rightarrow> double"
  all_reduce_double :: "double \<Rightarrow> double"
  all_reduce_gf :: "block_gf \<Rightarrow> block_gf"

text \<open>The constructor: both histograms are built and set to zero.\<close>

definition zero_block_gf :: "nat \<Rightarrow> (string \<times> nat) list \<Rightarrow> block_gf" where
  "zero_block_gf n gs = map (\<lambda>(name, sz). replicate n (replicate sz (replicate sz (Finite 0)))) gs"

definition G_F_tau_init :: "params_t \<Rightarrow> bool \<Rightarrow> G_F_tau" where
  "G_F_tau_init p rot_inv =
     \<lparr> beta = p_beta p,
       measure_F_tau = (p_measure_F_tau p \<and> rot_inv),
       gf_struct = p_gf_struct p,
       G_tau = zero_block_gf (p_n_tau_G p) (p_gf_struct p),
       F_tau = zero_block_gf (p_n_tau_G p) (p_gf_struct p),
       Z = Finite 0 \<rparr>"

text \<open>\<open>a -= b\<close> on doubles: the difference is the sum with the negation.\<close>

definition fp_sub :: "fp_arith \<Rightarrow> double \<Rightarrow> double \<Rightarrow> double" where
  "fp_sub ar a b = fp_add ar a (fneg b)"

text \<open>Lines 97 to 113: the loop over the segment lists is a fold over their enumeration.\<close>

definition fprefactor_step ::
  "('t, 'D) measure_env \<Rightarrow> 't \<Rightarrow> nat \<Rightarrow> nat \<times> 't segment_t list \<Rightarrow> double \<Rightarrow> double" where
  "fprefactor_step env ty col csl I_tau =
     (let c = fst csl; sl = snd csl; ar = m_arith env;
          ntau = n_tau env ty sl;
          I1 = (if c \<noteq> col then fp_add ar I_tau (fp_mul ar (m_U env c col) ntau) else I_tau);
          I2 = (if m_has_Dt env then
                  (let I' = fp_sub ar I1 (K_overlap_Kprime env sl ty c col)
                   in if c = col then fp_sub ar I' (fp_mul ar (Finite 2) (Kprime_0_real env c c))
                      else I')
                else I1)
      in if m_has_Jperp env then
           fp_sub ar
             (fp_sub ar I2 (fp_mul ar (fp_mul ar (Finite 4) (Kprime_spin_0_real env c col)) ntau))
             (fp_mul ar (Finite 2) (K_overlap_Kprime_spin env sl ty c col))
         else I2)"

definition fprefactor ::
  "('t, 'D) measure_env \<Rightarrow> 't configuration_t \<Rightarrow> nat \<Rightarrow> 't \<times> nat \<Rightarrow> double" where
  "fprefactor env cfg block y =
     (let col = block_to_color env block (snd y)
      in fold (fprefactor_step env (fst y) col) (enumerate 0 (seglists cfg)) (Finite 0))"

text \<open>\<open>G[bl][k](i, j) += v\<close>.\<close>

definition add_at :: "fp_arith \<Rightarrow> block_gf \<Rightarrow> nat \<Rightarrow> nat \<Rightarrow> nat \<Rightarrow> nat \<Rightarrow> double \<Rightarrow> block_gf" where
  "add_at ar G bl k i j v =
     G[bl := (G ! bl)[k := (G ! bl ! k)[i := (G ! bl ! k ! i)[j := fp_add ar (G ! bl ! k ! i ! j) v]]]]"

text \<open>Lines 54 to 60: the bin and the number that one entry of the determinant adds.\<close>

definition entry_bin :: "('t::minus, 'D) measure_env \<Rightarrow> 'D \<Rightarrow> nat \<Rightarrow> nat \<Rightarrow> nat" where
  "entry_bin env det id_y id_x =
     closest_mesh_pt env (m_tau_double env (fst (m_get_y env det id_y) - fst (m_get_x env det id_x)))"

definition entry_val :: "('t::linorder, 'D) measure_env \<Rightarrow> double \<Rightarrow> 'D \<Rightarrow> nat \<Rightarrow> nat \<Rightarrow> double" where
  "entry_val env s det id_y id_x =
     fp_mul (m_arith env)
       (if fst (m_get_y env det id_y) \<ge> fst (m_get_x env det id_x) then s else fneg s)
       (inverse_matrix env det id_y id_x)"

text \<open>
  The body of the loop over \<open>id_x\<close>, on the pair of the two histograms, then the body of
  the loop over \<open>id_y\<close> and the body of the loop over the determinants.
\<close>

definition accumulate_x ::
  "('t::{linorder,minus}, 'D) measure_env \<Rightarrow> bool \<Rightarrow> double \<Rightarrow> nat \<Rightarrow> 'D \<Rightarrow> nat \<Rightarrow> double \<Rightarrow> nat
     \<Rightarrow> block_gf \<times> block_gf \<Rightarrow> block_gf \<times> block_gf" where
  "accumulate_x env mF s bl det id_y f_fact id_x GF =
     (let y = m_get_y env det id_y; x = m_get_x env det id_x;
          v = entry_val env s det id_y id_x;
          k = entry_bin env det id_y id_x
      in (add_at (m_arith env) (fst GF) bl k (snd y) (snd x) v,
          if mF then add_at (m_arith env) (snd GF) bl k (snd y) (snd x) (fp_mul (m_arith env) v f_fact)
          else snd GF))"

definition accumulate_y ::
  "('t::{linorder,minus}, 'D) measure_env \<Rightarrow> 't configuration_t \<Rightarrow> bool \<Rightarrow> double \<Rightarrow> nat \<Rightarrow> 'D \<Rightarrow> nat
     \<Rightarrow> block_gf \<times> block_gf \<Rightarrow> block_gf \<times> block_gf" where
  "accumulate_y env cfg mF s bl det id_y GF =
     (let y = m_get_y env det id_y;
          f_fact = (if mF then fprefactor env cfg bl y else Finite 0)
      in fold (accumulate_x env mF s bl det id_y f_fact) [0..<m_det_size env det] GF)"

definition accumulate_block ::
  "('t::{linorder,minus}, 'D) measure_env \<Rightarrow> 't configuration_t \<Rightarrow> bool \<Rightarrow> double \<Rightarrow> nat \<times> 'D
     \<Rightarrow> block_gf \<times> block_gf \<Rightarrow> block_gf \<times> block_gf" where
  "accumulate_block env cfg mF s bd GF =
     fold (accumulate_y env cfg mF s (fst bd) (snd bd)) [0..<m_det_size env (snd bd)] GF"

definition accumulate ::
  "('t::{linorder,minus}, 'D) measure_env \<Rightarrow> 't configuration_t \<Rightarrow> 'D list \<Rightarrow> G_F_tau \<Rightarrow> double
     \<Rightarrow> G_F_tau" where
  "accumulate env cfg ds ms s =
     (let GF = fold (accumulate_block env cfg (measure_F_tau ms) s) (enumerate 0 ds)
                 (G_tau ms, F_tau ms)
      in ms\<lparr>Z := fp_add (m_arith env) (Z ms) s, G_tau := fst GF, F_tau := snd GF\<rparr>)"

text \<open>
  The entries of all the determinants, in the order of the three loops: the block, the
  determinant, the row \<open>id_y\<close> and the column \<open>id_x\<close>.
\<close>

definition det_entries :: "('t, 'D) measure_env \<Rightarrow> 'D list \<Rightarrow> (nat \<times> 'D \<times> nat \<times> nat) list" where
  "det_entries env ds =
     concat (map (\<lambda>bd.
       concat (map (\<lambda>id_y.
         map (\<lambda>id_x. (fst bd, snd bd, id_y, id_x)) [0..<m_det_size env (snd bd)])
         [0..<m_det_size env (snd bd)]))
       (enumerate 0 ds))"

definition add_entry ::
  "('t::{linorder,minus}, 'D) measure_env \<Rightarrow> double \<Rightarrow> nat \<times> 'D \<times> nat \<times> nat \<Rightarrow> block_gf \<Rightarrow> block_gf" where
  "add_entry env s e G =
     (case e of (bl, det, id_y, id_x) \<Rightarrow>
        add_at (m_arith env) G bl (entry_bin env det id_y id_x)
          (snd (m_get_y env det id_y)) (snd (m_get_x env det id_x))
          (entry_val env s det id_y id_x))"

text \<open>Lines 68 to 93. \<open>G / d\<close> divides every number; \<open>g[k] *= 2\<close> doubles a bin.\<close>

definition gf_div :: "fp_arith \<Rightarrow> block_gf \<Rightarrow> double \<Rightarrow> block_gf" where
  "gf_div ar G d = map (map (map (map (\<lambda>v. fp_div ar v d)))) G"

definition double_bin :: "fp_arith \<Rightarrow> nat \<Rightarrow> gf \<Rightarrow> gf" where
  "double_bin ar k g = g[k := map (map (\<lambda>v. fp_mul ar v (Finite 2))) (g ! k)]"

definition fix_ends :: "fp_arith \<Rightarrow> gf \<Rightarrow> gf" where
  "fix_ends ar g = double_bin ar (length g - 1) (double_bin ar 0 g)"

definition normalize :: "('t, 'D) measure_env \<Rightarrow> double \<Rightarrow> double \<Rightarrow> block_gf \<Rightarrow> block_gf" where
  "normalize env b z G =
     map (fix_ends (m_arith env))
       (gf_div (m_arith env) G
          (fp_mul (m_arith env) (fp_mul (m_arith env) (fneg b) z)
             (mesh_delta env (length (G ! 0)))))"

text \<open>
  \<open>collect_results\<close> returns the measure and the results. A histogram that was moved
  into the results is left empty in the measure.
\<close>

definition collect_results ::
  "('t, 'D) measure_env \<Rightarrow> G_F_tau \<Rightarrow> results_t \<Rightarrow> G_F_tau \<times> results_t" where
  "collect_results env ms res =
     (let Z1 = all_reduce_double env (Z ms);
          G1 = all_reduce_gf env (G_tau ms);
          G2 = normalize env (beta ms) Z1 G1;
          ms1 = ms\<lparr>Z := Z1, G_tau := []\<rparr>;
          res1 = res\<lparr>res_G_tau := Some G2\<rparr>
      in if measure_F_tau ms then
           (let F1 = all_reduce_gf env (F_tau ms);
                F2 = normalize env (beta ms) Z1 F1
            in (ms1\<lparr>F_tau := []\<rparr>, res1\<lparr>res_F_tau := Some F2\<rparr>))
         else (ms1, res1))"

section \<open>An environment to run the measure in\<close>

text \<open>
  A mesh of three points 0, 50 and 100 for \<open>beta = 100\<close>; the conversion of a time
  difference to a double wraps a negative difference around \<open>beta\<close>; the entry of an
  inverse matrix at row \<open>i\<close> and column \<open>j\<close> is \<open>3 + i + 2 * j\<close>; two workers hold the
  same numbers, so that the reduction doubles every number.
\<close>

definition ex_closest_mesh_pt :: "double \<Rightarrow> nat" where
  "ex_closest_mesh_pt d = (if fless d (Finite 25) then 0 else if fless d (Finite 75) then 1 else 2)"

definition ex_measure_env :: "(int, int det_manager) measure_env" where
  "ex_measure_env =
     \<lparr> m_arith = ex_arith,
       m_tau_double = (\<lambda>t. Finite (real_of_int (t mod 100))),
       m_det_size = (\<lambda>D. length (det_x D)),
       m_get_x = (\<lambda>D i. det_x D ! i), m_get_y = (\<lambda>D i. det_y D ! i),
       inverse_matrix = (\<lambda>D i j. Finite (3 + real i + 2 * real j)),
       closest_mesh_pt = ex_closest_mesh_pt,
       mesh_delta = (\<lambda>n. Finite (100 / (real n - 1))),
       block_to_color = (\<lambda>b i. b),
       n_tau = (\<lambda>t sl. Finite 0),
       m_U = (\<lambda>a b. Finite 0), m_has_Dt = False, m_has_Jperp = False,
       K_overlap_Kprime = (\<lambda>sl t a b. Finite 0),
       K_overlap_Kprime_spin = (\<lambda>sl t a b. Finite 0),
       Kprime_0_real = (\<lambda>a b. Finite 0), Kprime_spin_0_real = (\<lambda>a b. Finite 0),
       all_reduce_double = (\<lambda>z. ex_add z z),
       all_reduce_gf = map (map (map (map (\<lambda>v. ex_add v v)))) \<rparr>"

definition ex_params :: "bool \<Rightarrow> params_t" where
  "ex_params mF =
     \<lparr> p_beta = Finite 100, p_measure_F_tau = mF, p_gf_struct = [(''up'', 1)], p_n_tau_G = 3 \<rparr>"

definition ex_config :: "int configuration_t" where
  "ex_config = \<lparr>seglists = [[\<lparr>tau_c = 20, tau_cdag = 40\<rparr>]]\<rparr>"

text \<open>
  A measure after one configuration of sign 1 with the determinant \<open>one_det\<close> was
  accumulated, and the results before the collection.
\<close>

definition ex_measured :: "bool \<Rightarrow> G_F_tau" where
  "ex_measured mF =
     \<lparr> beta = Finite 100, measure_F_tau = mF, gf_struct = [(''up'', 1)],
       G_tau = [[[[Finite 0]], [[Finite 0]], [[Finite (- 3)]]]],
       F_tau = [[[[Finite 0]], [[Finite 0]], [[Finite 0]]]],
       Z = Finite 1 \<rparr>"

definition ex_results :: results_t where
  "ex_results = \<lparr>res_G_tau = None, res_F_tau = None\<rparr>"

text \<open>
  A determinant of size two, whose keys address the two rows and the two columns of a
  bin, and a measure whose histograms and \<open>Z\<close> are not zero.
\<close>

definition two_det :: "int det_manager" where
  "two_det = \<lparr>det_x = [(40, 0), (70, 1)], det_y = [(20, 0), (60, 1)], last_try = None\<rparr>"

definition ex_started :: G_F_tau where
  "ex_started =
     \<lparr> beta = Finite 100, measure_F_tau = False, gf_struct = [(''up'', 2)],
       G_tau = [[[[Finite 1, Finite 2], [Finite 3, Finite 4]],
                 [[Finite 5, Finite 6], [Finite 7, Finite 8]],
                 [[Finite 9, Finite 10], [Finite 11, Finite 12]]]],
       F_tau = [[[[Finite 0, Finite 0], [Finite 0, Finite 0]],
                 [[Finite 0, Finite 0], [Finite 0, Finite 0]],
                 [[Finite 0, Finite 0], [Finite 0, Finite 0]]]],
       Z = Finite 7 \<rparr>"

section \<open>Properties of the move\<close>

subsection \<open>Facts about a proposal that reaches its last line\<close>

lemma attempt_run_reached:
  assumes "attempt_run env st = Inr (l, st')"
  shows "prod_w l = fp_mul (arith env) (fp_mul (arith env) (trace_ratio l) (det_ratio l)) (prop_ratio l)"
    and "det_sign st' = (if fgreater (det_ratio l) (Finite 0) then Finite 1 else Finite (- 1))"
    and "prop_ratio l =
           proposition_ratio (arith env) (seglists (config st) ! color st')
             (tau_double env (window_length l))"
    and "prop_seg st' =
           (if dt1 l > dt2 l \<and> seglists (config st) ! color st' \<noteq> []
            then \<lparr>tau_c = wtau_left l - dt2 l, tau_cdag = wtau_left l - dt1 l\<rparr>
            else \<lparr>tau_c = wtau_left l - dt1 l, tau_cdag = wtau_left l - dt2 l\<rparr>)"
    and "dt1 l \<noteq> dt2 l"
    and "seglists (config st) ! color st' = [] \<Longrightarrow> wtau_left l = tau_beta env"
    and "config st' = config st"
  using assms
  by (auto simp: attempt_run_def draw_offsets_def choose_window_def Let_def
           split: prod.splits if_splits)

lemma attempt_reached:
  assumes "attempt_run env st = Inr (l, st')"
  shows "attempt env st = (if isfinite (prod_w l) then prod_w l else det_sign st', st')"
  using assms by (simp add: attempt_def)

lemma fle_not_fgreater: "fle a (Finite 0) \<Longrightarrow> \<not> fgreater a (Finite 0)"
  by (cases a) (auto simp: fle_def fgreater_def)

subsection \<open>The example runs\<close>

lemmas ex_defs = ex_env_def ex_arith_def ex_empty_def ex_one_def ex_full_def empty_det_def one_det_def
  attempt_run_def draw_offsets_def choose_window_def ln_trace_ratio_def ln_trace_step_def det_try_insert_def
  proposition_ratio_def n_color_def dm_try_insert_def ex_lower_bound_def fmax_def double_of_nat_def fgreater_def
  Let_def

lemma ex_fields:
  "config (ex_one d) = \<lparr>seglists = [[\<lparr>tau_c = 20, tau_cdag = 40\<rparr>]]\<rparr>"
  "config (ex_empty d) = \<lparr>seglists = [[]]\<rparr>"
  "config (ex_full d) = \<lparr>seglists = [[\<lparr>tau_c = 100, tau_cdag = 0\<rparr>]]\<rparr>"
  "dets (ex_one d) = [one_det]"
  "dets (ex_empty d) = [empty_det]"
  "dets (ex_full d) = [empty_det]"
  "rng (ex_one d) = d" "rng (ex_empty d) = d" "rng (ex_full d) = d"
  "tau_beta (ex_env dr sg) = 100"
  "arith (ex_env dr sg) = ex_arith"
  "tau_double (ex_env dr sg) t = Finite (real_of_int t)"
  by (simp_all add: ex_one_def ex_empty_def ex_full_def ex_env_def)

lemma run_one_swapped:
  "attempt_run (ex_env dr sg) (ex_one [0, 0, 5, 2]) =
     Inr (\<lparr>wtau_left = 40, wtau_right = 20, window_length = 20, dt1 = 5, dt2 = 2,
            trace_ratio = Finite 1, det_ratio = dr, prop_ratio = Finite 100,
            prod_w = ex_mul (ex_mul (Finite 1) dr) (Finite 100)\<rparr>,
          \<lparr>config = \<lparr>seglists = [[\<lparr>tau_c = 20, tau_cdag = 40\<rparr>]]\<rparr>,
            dets = [\<lparr>det_x = [(40, 0)], det_y = [(20, 0)],
                    last_try = Some (0, 1, (35, 0), (38, 0))\<rparr>],
            rng = [], color = 0, prop_seg = \<lparr>tau_c = 38, tau_cdag = 35\<rparr>,
            det_sign = (if fless (Finite 0) dr then Finite 1 else Finite (- 1))\<rparr>)"
  by (simp add: ex_defs)

lemma run_empty_unswapped:
  "attempt_run (ex_env dr sg) (ex_empty [0, 30, 10]) =
     Inr (\<lparr>wtau_left = 100, wtau_right = 0, window_length = 100, dt1 = 30, dt2 = 10,
            trace_ratio = Finite 1, det_ratio = dr, prop_ratio = Finite 10000,
            prod_w = ex_mul (ex_mul (Finite 1) dr) (Finite 10000)\<rparr>,
          \<lparr>config = \<lparr>seglists = [[]]\<rparr>,
            dets = [\<lparr>det_x = [], det_y = [], last_try = Some (0, 0, (90, 0), (70, 0))\<rparr>],
            rng = [], color = 0, prop_seg = \<lparr>tau_c = 70, tau_cdag = 90\<rparr>,
            det_sign = (if fless (Finite 0) dr then Finite 1 else Finite (- 1))\<rparr>)"
  by (simp add: ex_defs)

subsection \<open>The trial segment\<close>

text \<open>
  Claim C2, as the spec states it: on a list that is not empty the larger offset is
  subtracted first, so that the first time of the trial segment (\<open>tau_c\<close>, which the spec
  calls the creation time: it writes a segment as \<open>{creation, annihilation}\<close>, the order
  of \<open>{tau_c, tau_cdag}\<close>) is \<open>window_left - larger\<close> and the second is
  \<open>window_left - smaller\<close>. The code swaps the offsets when \<open>dt1 > dt2\<close>, so that the
  smaller one is subtracted first. On the list \<open>[{20, 40}]\<close> with the window from 40 and
  the offsets 5 and 2 drawn, the trial segment is \<open>{38, 35}\<close>, not \<open>{35, 38}\<close>.
\<close>

theorem larger_offset_first_counterexample:
  "seglists (config (ex_one [0, 0, 5, 2])) ! 0 \<noteq> [] \<and>
   wtau_left (fst (projr (attempt_run (ex_env (Finite 2) (Finite 1)) (ex_one [0, 0, 5, 2])))) = 40 \<and>
   dt1 (fst (projr (attempt_run (ex_env (Finite 2) (Finite 1)) (ex_one [0, 0, 5, 2])))) = 5 \<and>
   dt2 (fst (projr (attempt_run (ex_env (Finite 2) (Finite 1)) (ex_one [0, 0, 5, 2])))) = 2 \<and>
   prop_seg (snd (attempt (ex_env (Finite 2) (Finite 1)) (ex_one [0, 0, 5, 2]))) =
     \<lparr>tau_c = 38, tau_cdag = 35\<rparr> \<and>
   prop_seg (snd (attempt (ex_env (Finite 2) (Finite 1)) (ex_one [0, 0, 5, 2]))) \<noteq>
     \<lparr>tau_c = 40 - max 5 2, tau_cdag = 40 - min 5 2\<rparr>"
  by (simp add: attempt_def run_one_swapped ex_fields)

text \<open>
  Claim C2, amended: for every proposal that reaches its last line, on a list that is
  not empty \<open>tau_c\<close> of the trial segment is \<open>window_left\<close> minus the smaller of the two
  offsets drawn and \<open>tau_cdag\<close> is \<open>window_left\<close> minus the larger; on an empty list the
  offsets are not reordered and the trial segment is \<open>{beta - dt1, beta - dt2}\<close>.
\<close>

theorem insert_segment_times:
  assumes "attempt_run env st = Inr (l, st')"
  shows "(seglists (config st) ! color st' \<noteq> [] \<longrightarrow>
            tau_c (prop_seg st') = wtau_left l - min (dt1 l) (dt2 l) \<and>
            tau_cdag (prop_seg st') = wtau_left l - max (dt1 l) (dt2 l)) \<and>
         (seglists (config st) ! color st' = [] \<longrightarrow>
            prop_seg st' = \<lparr>tau_c = tau_beta env - dt1 l, tau_cdag = tau_beta env - dt2 l\<rparr>)"
  using attempt_run_reached(4,5,6)[OF assms]
  by (auto simp: min_def max_def)

theorem insert_segment_times_witness:
  "tau_c (prop_seg (snd (projr (attempt_run (ex_env (Finite 2) (Finite 1)) (ex_one [0, 0, 5, 2]))))) = 40 - min 5 2 \<and>
   tau_cdag (prop_seg (snd (projr (attempt_run (ex_env (Finite 2) (Finite 1)) (ex_one [0, 0, 5, 2]))))) = 40 - max 5 2 \<and>
   prop_seg (snd (projr (attempt_run (ex_env (Finite 2) (Finite 1)) (ex_empty [0, 30, 10])))) =
     \<lparr>tau_c = 100 - 30, tau_cdag = 100 - 10\<rparr>"
  using insert_segment_times [OF run_one_swapped [of "Finite 2" "Finite 1"]]
        insert_segment_times [OF run_empty_unswapped [of "Finite 2" "Finite 1"]]
  by (simp add: run_one_swapped run_empty_unswapped ex_fields)

subsection \<open>The proposition ratio\<close>

text \<open>
  Claim C3: for every proposal that reaches the computation of the proposition ratio,
  the ratio is \<open>(max(1, N) * L * L / d) / (N + 1)\<close>, computed in this order with the
  operations of doubles, where \<open>N\<close> is the number of segments of the chosen color before
  the insertion, \<open>L\<close> the length of the window, and \<open>d\<close> is 2 when the list is not empty
  and 1 when it is empty. Where the operations are exact and \<open>L\<close> is the finite number
  \<open>x\<close>, this is the number \<open>(max(1, N) * x\<^sup>2 / d) / (N + 1)\<close>.
\<close>

theorem proposition_ratio_formula:
  assumes "attempt_run env st = Inr (l, st')"
  shows "prop_ratio l =
           fp_div (arith env)
             (fp_div (arith env)
                (fp_mul (arith env)
                   (fp_mul (arith env)
                      (fmax (Finite 1) (double_of_nat (length (seglists (config st) ! color st'))))
                      (tau_double env (window_length l)))
                   (tau_double env (window_length l)))
                (if seglists (config st) ! color st' = [] then Finite 1 else Finite 2))
             (fp_add (arith env) (double_of_nat (length (seglists (config st) ! color st'))) (Finite 1)) \<and>
         (arith env = ex_arith \<and> tau_double env (window_length l) = Finite x \<longrightarrow>
            prop_ratio l =
              Finite ((max 1 (real (length (seglists (config st) ! color st'))) * x\<^sup>2
                        / (if seglists (config st) ! color st' = [] then 1 else 2))
                      / (real (length (seglists (config st) ! color st')) + 1)))"
  using attempt_run_reached(3)[OF assms]
  by (auto simp: proposition_ratio_def Let_def ex_arith_def fmax_def double_of_nat_def power2_eq_square max_def)

theorem proposition_ratio_formula_witness:
  "prop_ratio (fst (projr (attempt_run (ex_env (Finite 2) (Finite 1)) (ex_one [0, 0, 5, 2])))) =
     Finite ((max 1 (real 1) * 20\<^sup>2 / 2) / (real 1 + 1)) \<and>
   prop_ratio (fst (projr (attempt_run (ex_env (Finite 2) (Finite 1)) (ex_empty [0, 30, 10])))) =
     Finite ((max 1 (real 0) * 100\<^sup>2 / 1) / (real 0 + 1))"
  using proposition_ratio_formula [OF run_one_swapped [of "Finite 2" "Finite 1"], of 20]
        proposition_ratio_formula [OF run_empty_unswapped [of "Finite 2" "Finite 1"], of 100]
  by (simp add: run_one_swapped run_empty_unswapped ex_fields)

subsection \<open>The value returned\<close>

text \<open>
  Claim C4: for every proposal that reaches its last line, \<open>prod\<close> is
  \<open>trace_ratio * det_ratio * prop_ratio\<close>; when it is a finite number \<open>attempt\<close> returns
  it, and when it is not, \<open>attempt\<close> returns the sign of the determinant ratio alone,
  which is exactly 1 or -1. (The two early returns compute no product.)
\<close>

theorem attempt_weight_or_sign:
  assumes "attempt_run env st = Inr (l, st')"
  shows "prod_w l =
           fp_mul (arith env) (fp_mul (arith env) (trace_ratio l) (det_ratio l)) (prop_ratio l) \<and>
         fst (attempt env st) =
           (if isfinite (prod_w l) then prod_w l
            else if fgreater (det_ratio l) (Finite 0) then Finite 1 else Finite (- 1)) \<and>
         (\<not> isfinite (prod_w l) \<longrightarrow>
            fst (attempt env st) = Finite 1 \<or> fst (attempt env st) = Finite (- 1))"
  using attempt_run_reached(1,2)[OF assms] attempt_reached[OF assms]
  by simp

theorem attempt_weight_or_sign_witness:
  "fst (attempt (ex_env (Finite 2) (Finite 1)) (ex_one [0, 0, 5, 2])) = Finite 200 \<and>
   fst (attempt (ex_env PInf (Finite 1)) (ex_one [0, 0, 5, 2])) = Finite 1 \<and>
   fst (attempt (ex_env NInf (Finite 1)) (ex_one [0, 0, 5, 2])) = Finite (- 1)"
  using attempt_weight_or_sign [OF run_one_swapped [of "Finite 2" "Finite 1"]]
        attempt_weight_or_sign [OF run_one_swapped [of PInf "Finite 1"]]
        attempt_weight_or_sign [OF run_one_swapped [of NInf "Finite 1"]]
  by (simp add: fgreater_def inf_signed_def)

text \<open>
  Claim C10, as it is stated: when the product is not finite, the value returned is -1
  for a determinant ratio less than or equal to 0 and 1 otherwise. A ratio that is NaN
  is not less than or equal to 0, it makes the product not finite, and the value
  returned for it is -1, not 1.
\<close>

theorem fallback_otherwise_plus_one_counterexample:
  "det_ratio (fst (projr (attempt_run (ex_env NaN (Finite 1)) (ex_one [0, 0, 5, 2])))) = NaN \<and>
   \<not> fle NaN (Finite 0) \<and>
   \<not> isfinite (prod_w (fst (projr (attempt_run (ex_env NaN (Finite 1)) (ex_one [0, 0, 5, 2]))))) \<and>
   fst (attempt (ex_env NaN (Finite 1)) (ex_one [0, 0, 5, 2])) = Finite (- 1) \<and>
   fst (attempt (ex_env NaN (Finite 1)) (ex_one [0, 0, 5, 2])) \<noteq> Finite 1"
  by (simp add: attempt_def run_one_swapped fle_def)

text \<open>
  Claim C10, amended: the sign stored in \<open>det_sign\<close> is 1 exactly when the determinant
  ratio is greater than 0, and -1 for every other ratio: a ratio less than or equal to 0,
  a ratio of zero included, and a ratio that is NaN. So when the product is not finite
  the value returned is that sign: -1 for every ratio that is not greater than 0, 1 for
  every ratio greater than 0, and never 0.
\<close>

theorem det_sign_nonpositive_ratio:
  assumes "attempt_run env st = Inr (l, st')"
  shows "det_sign st' = (if fgreater (det_ratio l) (Finite 0) then Finite 1 else Finite (- 1)) \<and>
         (fle (det_ratio l) (Finite 0) \<longrightarrow> det_sign st' = Finite (- 1)) \<and>
         (det_ratio l = NaN \<longrightarrow> det_sign st' = Finite (- 1)) \<and>
         (\<not> isfinite (prod_w l) \<longrightarrow>
            fst (attempt env st) = det_sign st' \<and> fst (attempt env st) \<noteq> Finite 0)"
  using attempt_run_reached(2)[OF assms] attempt_reached[OF assms] fle_not_fgreater[of "det_ratio l"]
  by (auto simp: fgreater_def)

theorem det_sign_nonpositive_ratio_witness:
  "fle NInf (Finite 0) \<and>
   det_sign (snd (attempt (ex_env NInf (Finite 1)) (ex_one [0, 0, 5, 2]))) = Finite (- 1) \<and>
   fst (attempt (ex_env NInf (Finite 1)) (ex_one [0, 0, 5, 2])) = Finite (- 1) \<and>
   fst (attempt (ex_env NaN (Finite 1)) (ex_one [0, 0, 5, 2])) = Finite (- 1) \<and>
   fst (attempt (ex_env PInf (Finite 1)) (ex_one [0, 0, 5, 2])) = Finite 1"
  using det_sign_nonpositive_ratio [OF run_one_swapped [of NInf "Finite 1"]]
        det_sign_nonpositive_ratio [OF run_one_swapped [of NaN "Finite 1"]]
        det_sign_nonpositive_ratio [OF run_one_swapped [of PInf "Finite 1"]]
  by (simp add: fgreater_def fle_def inf_signed_def attempt_def run_one_swapped)

subsection \<open>Proposals that fail\<close>

text \<open>
  Claim C5: whenever the segment list of the chosen color is a full line, or the two
  time offsets drawn are equal, \<open>attempt\<close> returns exactly 0 and leaves the state as it
  was but for the random generator and the chosen color: the configuration and the
  determinants are unchanged. The result is the same whatever \<open>try_insert\<close> would do, so
  no trial insertion is requested.
\<close>

theorem attempt_fails_without_trial:
  assumes "rng_int env (rng st) (n_color (config st)) = (col, r0)"
    and "sl = seglists (config st) ! col"
    and "(sl \<noteq> [] \<and> is_full_line env (last sl)) \<or>
         (\<exists>wl wr wlen t r3. draw_offsets env sl r0 = (wl, wr, wlen, t, t, r3))"
  shows "\<exists>r'. \<forall>f. attempt (env\<lparr>try_insert := f\<rparr>) st = (Finite 0, st\<lparr>rng := r', color := col\<rparr>)"
proof (cases "sl \<noteq> [] \<and> is_full_line env (last sl)")
  case True
  then have "attempt (env\<lparr>try_insert := f\<rparr>) st = (Finite 0, st\<lparr>rng := r0, color := col\<rparr>)" for f
    using assms(1,2) by (simp add: attempt_def attempt_run_def Let_def)
  then show ?thesis by blast
next
  case False
  with assms(3) obtain wl wr wlen t r3 where d: "draw_offsets env sl r0 = (wl, wr, wlen, t, t, r3)"
    by blast
  have "draw_offsets (env\<lparr>try_insert := f\<rparr>) sl r0 = draw_offsets env sl r0" for f
    by (simp add: draw_offsets_def choose_window_def)
  with d have "draw_offsets (env\<lparr>try_insert := f\<rparr>) sl r0 = (wl, wr, wlen, t, t, r3)" for f
    by simp
  then have "attempt (env\<lparr>try_insert := f\<rparr>) st = (Finite 0, st\<lparr>rng := r3, color := col\<rparr>)" for f
    using assms(1,2) False by (auto simp: attempt_def attempt_run_def Let_def)
  then show ?thesis by blast
qed

lemma run_full:
  "rng_int (ex_env dr sg) (rng (ex_full [0, 0, 5, 2])) (n_color (config (ex_full [0, 0, 5, 2]))) = (0, [0, 5, 2])"
  by (simp add: ex_fields n_color_def ex_env_def)

lemma run_equal:
  "rng_int (ex_env dr sg) (rng (ex_one [0, 0, 5, 5])) (n_color (config (ex_one [0, 0, 5, 5]))) = (0, [0, 5, 5])"
  "draw_offsets (ex_env dr sg) [\<lparr>tau_c = 20, tau_cdag = 40\<rparr>] [0, 5, 5] = (40, 20, 20, 5, 5, [])"
  by (simp_all add: ex_fields n_color_def ex_env_def draw_offsets_def choose_window_def)

theorem attempt_fails_without_trial_witness:
  "(\<exists>r'. \<forall>f. attempt (ex_env (Finite 2) (Finite 1)\<lparr>try_insert := f\<rparr>) (ex_full [0, 0, 5, 2]) =
           (Finite 0, ex_full [0, 0, 5, 2]\<lparr>rng := r', color := 0\<rparr>)) \<and>
   (\<exists>r'. \<forall>f. attempt (ex_env (Finite 2) (Finite 1)\<lparr>try_insert := f\<rparr>) (ex_one [0, 0, 5, 5]) =
           (Finite 0, ex_one [0, 0, 5, 5]\<lparr>rng := r', color := 0\<rparr>))"
proof
  show "\<exists>r'. \<forall>f. attempt (ex_env (Finite 2) (Finite 1)\<lparr>try_insert := f\<rparr>) (ex_full [0, 0, 5, 2]) =
           (Finite 0, ex_full [0, 0, 5, 2]\<lparr>rng := r', color := 0\<rparr>)"
    using attempt_fails_without_trial [OF run_full [of "Finite 2" "Finite 1"] refl]
    by (simp add: ex_fields ex_env_def)
  show "\<exists>r'. \<forall>f. attempt (ex_env (Finite 2) (Finite 1)\<lparr>try_insert := f\<rparr>) (ex_one [0, 0, 5, 5]) =
           (Finite 0, ex_one [0, 0, 5, 5]\<lparr>rng := r', color := 0\<rparr>)"
    using attempt_fails_without_trial [OF run_equal(1) [of "Finite 2" "Finite 1"] refl]
    by (simp add: ex_fields run_equal(2))
qed

subsection \<open>Acceptance\<close>

text \<open>
  Claim C1: let \<open>sign_ratio\<close> be the sign of the configuration after the insertion
  divided by the sign before it. Whenever \<open>accept\<close> returns, it returns \<open>sign_ratio\<close>
  with the committed state, and \<open>sign_ratio * det_sign\<close> is exactly 1, \<open>det_sign\<close> being
  the sign stored by \<open>attempt\<close>. Whenever the product differs from 1, \<open>accept\<close> does
  not return: the run is aborted.
\<close>

theorem accept_sign_ratio:
  fixes env :: "('t, 'D, 'r) move_env" and st :: "('t, 'D, 'r) insert_segment"
  defines "sign_ratio \<equiv>
             fp_div (arith env)
               (config_sign env (config (accept_commit env st)) (dets (accept_commit env st)))
               (config_sign env (config st) (dets st))"
  shows "(\<forall>r st'. accept env st = Inr (r, st') \<longrightarrow>
            r = sign_ratio \<and> st' = accept_commit env st \<and>
            fp_mul (arith env) sign_ratio (det_sign st) = Finite 1) \<and>
         (fp_mul (arith env) sign_ratio (det_sign st) \<noteq> Finite 1 \<longrightarrow>
            accept env st = Inl Sign_violated \<or> accept env st = Inl Invariant_violated)"
proof -
  have feq_one: "feq a (Finite 1) = (a = Finite 1)" for a
    by (cases a) auto
  show ?thesis
    unfolding sign_ratio_def
    by (auto simp: accept_def Let_def feq_one split: if_splits)
qed

lemma ex_accept_fields:
  "config_sign (ex_env dr sg) c d = sg"
  "check_invariants (ex_env dr sg) = False"
  "ctseg_debug (ex_env dr sg) = False"
  by (simp_all add: ex_env_def)

lemma ex_proposed_fields:
  "det_sign (ex_proposed ds) = ds"
  "config (ex_proposed ds) = \<lparr>seglists = [[\<lparr>tau_c = 20, tau_cdag = 40\<rparr>]]\<rparr>"
  by (simp_all add: ex_proposed_def)

lemma upper_bound_loop_0: "upper_bound_loop lt xs v first 0 = first"
  by (subst upper_bound_loop.simps) simp

lemma upper_bound_Nil: "upper_bound lt [] v = 0"
  by (simp add: upper_bound_def upper_bound_loop_0)

lemma upper_bound_single: "upper_bound lt [a] v = (if lt v a then 0 else 1)"
  unfolding upper_bound_def
  by (subst upper_bound_loop.simps) (simp add: Let_def upper_bound_loop_0)

lemma ex_commit:
  "accept_commit (ex_env dr sg) (ex_proposed ds) =
     \<lparr>config = \<lparr>seglists = [[\<lparr>tau_c = 38, tau_cdag = 35\<rparr>, \<lparr>tau_c = 20, tau_cdag = 40\<rparr>]]\<rparr>,
       dets = [\<lparr>det_x = [(35, 0), (40, 0)], det_y = [(20, 0), (38, 0)], last_try = None\<rparr>],
       rng = [], color = 0, prop_seg = \<lparr>tau_c = 38, tau_cdag = 35\<rparr>, det_sign = ds\<rparr>"
  by (simp add: accept_commit_def ex_proposed_def ex_env_def upper_bound_single insert_at_def
        dm_complete_operation_def Let_def)

theorem accept_sign_ratio_witness:
  "accept (ex_env (Finite 2) (Finite 1)) (ex_proposed (Finite 1)) =
     Inr (Finite 1, accept_commit (ex_env (Finite 2) (Finite 1)) (ex_proposed (Finite 1))) \<and>
   accept (ex_env (Finite 2) (Finite 1)) (ex_proposed (Finite (- 1))) = Inl Sign_violated"
  using accept_sign_ratio [of "ex_env (Finite 2) (Finite 1)" "ex_proposed (Finite 1)"]
        accept_sign_ratio [of "ex_env (Finite 2) (Finite 1)" "ex_proposed (Finite (- 1))"]
  by (simp add: accept_def ex_accept_fields ex_fields Let_def ex_proposed_fields ex_arith_def)

subsection \<open>Rejection\<close>

lemma attempt_run_failed:
  assumes "attempt_run env st = Inl st'"
  shows "config st' = config st" and "dets st' = dets st"
    and "color st' = fst (rng_int env (rng st) (n_color (config st)))"
  using assms
  by (auto simp: attempt_run_def Let_def split: prod.splits if_splits)

lemma attempt_run_reached_dets:
  assumes "attempt_run env st = Inr (l, st')"
  shows "dets st' = (dets st)[color st' := snd (det_try_insert env (dets st ! color st') (prop_seg st'))]"
  using assms
  by (auto simp: attempt_run_def Let_def split: prod.splits if_splits)

text \<open>
  Claim C6: \<open>reject\<close> only replaces the determinant of the chosen color by the result of
  \<open>reject_last_try\<close>: no segment list, no sign and no trial segment is modified. For a
  determinant manager that keeps the contract of the spec (on a determinant with no
  pending trial, \<open>reject_last_try\<close> undoes \<open>try_insert\<close> and is otherwise without effect)
  and a state with no pending trial, \<open>reject\<close> after \<open>attempt\<close> gives back the
  configuration and the determinants that \<open>attempt\<close> started from.
\<close>

theorem reject_restores_state:
  assumes rollback: "\<And>D i j x y. idle D \<Longrightarrow> reject_last_try env (snd (try_insert env D i j x y)) = D"
    and no_op: "\<And>D. idle D \<Longrightarrow> reject_last_try env D = D"
    and idle: "\<forall>D \<in> set (dets st). idle D"
  shows "config (reject env (snd (attempt env st))) = config st \<and>
         dets (reject env (snd (attempt env st))) = dets st \<and>
         reject env s = s\<lparr>dets := (dets s)[color s := reject_last_try env (dets s ! color s)]\<rparr> \<and>
         config (reject env s) = config s \<and> prop_seg (reject env s) = prop_seg s \<and>
         det_sign (reject env s) = det_sign s \<and> color (reject env s) = color s \<and>
         rng (reject env s) = rng s"
proof -
  have upd: "(dets st)[c := reject_last_try env (dets st ! c)] = dets st" for c
  proof (cases "c < length (dets st)")
    case True
    then have "idle (dets st ! c)" using idle by simp
    then show ?thesis using no_op by (simp add: list_update_same_conv)
  next
    case False
    then show ?thesis by (simp add: not_less list_update_beyond)
  qed
  have upd2: "((dets st)[c := snd (try_insert env (dets st ! c) i j x y)])
                [c := reject_last_try env (((dets st)[c := snd (try_insert env (dets st ! c) i j x y)]) ! c)]
              = dets st" for c i j x y
  proof (cases "c < length (dets st)")
    case True
    then have "idle (dets st ! c)" using idle by simp
    then show ?thesis using rollback True by (simp add: list_update_same_conv)
  next
    case False
    then show ?thesis by (simp add: not_less list_update_beyond)
  qed
  have "config (reject env (snd (attempt env st))) = config st \<and>
        dets (reject env (snd (attempt env st))) = dets st"
  proof (cases "attempt_run env st")
    case (Inl st')
    then show ?thesis
      using attempt_run_failed(1,2)[OF Inl] upd by (simp add: attempt_def reject_def)
  next
    case (Inr p)
    obtain l st' where p: "p = (l, st')" by (cases p)
    from Inr p have run: "attempt_run env st = Inr (l, st')" by simp
    obtain i j x y where
      d: "dets st' = (dets st)[color st' := snd (try_insert env (dets st ! color st') i j x y)]"
      using attempt_run_reached_dets[OF run] by (simp add: det_try_insert_def Let_def)
    have "config st' = config st" using attempt_run_reached(7)[OF run] .
    moreover have "(dets st')[color st' := reject_last_try env (dets st' ! color st')] = dets st"
      unfolding d by (rule upd2)
    ultimately show ?thesis using run by (simp add: attempt_def reject_def)
  qed
  then show ?thesis by (simp add: reject_def)
qed

lemma dm_contract:
  "no_trial D \<Longrightarrow> reject_last_try (ex_env dr sg) (snd (try_insert (ex_env dr sg) D i j x y)) = D"
  "no_trial D \<Longrightarrow> reject_last_try (ex_env dr sg) D = D"
  by (simp_all add: ex_env_def dm_try_insert_def dm_reject_last_try_def no_trial_def)

lemma ex_idle:
  "\<forall>D \<in> set (dets (ex_one d)). no_trial D"
  "\<forall>D \<in> set (dets (ex_full d)). no_trial D"
  by (simp_all add: ex_fields no_trial_def one_det_def empty_det_def)

lemma run_full_fails:
  "attempt_run (ex_env dr sg) (ex_full [0, 0, 5, 2]) =
     Inl \<lparr>config = \<lparr>seglists = [[\<lparr>tau_c = 100, tau_cdag = 0\<rparr>]]\<rparr>, dets = [empty_det],
          rng = [0, 5, 2], color = 0, prop_seg = \<lparr>tau_c = 0, tau_cdag = 0\<rparr>,
          det_sign = Finite 1\<rparr>"
  by (simp add: attempt_run_def ex_env_def ex_full_def n_color_def)

theorem reject_restores_state_witness:
  "config (reject (ex_env (Finite 2) (Finite 1)) (snd (attempt (ex_env (Finite 2) (Finite 1)) (ex_one [0, 0, 5, 2])))) =
     \<lparr>seglists = [[\<lparr>tau_c = 20, tau_cdag = 40\<rparr>]]\<rparr> \<and>
   dets (snd (attempt (ex_env (Finite 2) (Finite 1)) (ex_one [0, 0, 5, 2]))) =
     [\<lparr>det_x = [(40, 0)], det_y = [(20, 0)], last_try = Some (0, 1, (35, 0), (38, 0))\<rparr>] \<and>
   dets (reject (ex_env (Finite 2) (Finite 1)) (snd (attempt (ex_env (Finite 2) (Finite 1)) (ex_one [0, 0, 5, 2])))) =
     [\<lparr>det_x = [(40, 0)], det_y = [(20, 0)], last_try = None\<rparr>] \<and>
   dets (reject (ex_env (Finite 2) (Finite 1)) (snd (attempt (ex_env (Finite 2) (Finite 1)) (ex_full [0, 0, 5, 2])))) =
     [empty_det]"
proof -
  note one = reject_restores_state [of no_trial "ex_env (Finite 2) (Finite 1)" "ex_one [0, 0, 5, 2]",
          OF dm_contract ex_idle(1)]
  note full = reject_restores_state [of no_trial "ex_env (Finite 2) (Finite 1)" "ex_full [0, 0, 5, 2]",
          OF dm_contract ex_idle(2)]
  show ?thesis
    using one [THEN conjunct1] one [THEN conjunct2, THEN conjunct1]
          full [THEN conjunct2, THEN conjunct1]
    by (simp add: ex_fields attempt_def run_one_swapped one_det_def)
qed

section \<open>Properties of the measure\<close>

subsection \<open>The loops of \<open>accumulate\<close> as one pass over the entries\<close>

lemma in_det_entries:
  "(bl, det, id_y, id_x) \<in> set (det_entries env ds) \<longleftrightarrow>
     bl < length ds \<and> det = ds ! bl \<and> id_y < m_det_size env det \<and> id_x < m_det_size env det"
proof
  assume "(bl, det, id_y, id_x) \<in> set (det_entries env ds)"
  then show "bl < length ds \<and> det = ds ! bl \<and> id_y < m_det_size env det \<and> id_x < m_det_size env det"
    by (auto simp: det_entries_def in_set_enumerate_eq Bex_def)
next
  assume a: "bl < length ds \<and> det = ds ! bl \<and> id_y < m_det_size env det \<and> id_x < m_det_size env det"
  then have "(bl, det, id_y, id_x) \<in> (\<lambda>xa. (bl, ds ! bl, id_y, xa)) ` {0..<m_det_size env (ds ! bl)}"
    by auto
  with a show "(bl, det, id_y, id_x) \<in> set (det_entries env ds)"
    unfolding det_entries_def
    by (simp add: in_set_enumerate_eq Bex_def) blast
qed

lemma entry_val_flip:
  "entry_val env s det id_y id_x =
     fp_mul (m_arith env)
       (if fst (m_get_y env det id_y) < fst (m_get_x env det id_x) then fneg s else s)
       (inverse_matrix env det id_y id_x)"
  by (auto simp: entry_val_def)

lemma fold_concat_map: "fold f (concat (map g xs)) = fold (\<lambda>x. fold f (g x)) xs"
proof
  show "fold f (concat (map g xs)) a = fold (\<lambda>x. fold f (g x)) xs a" for a
    by (induction xs arbitrary: a) simp_all
qed

lemma fst_fold_accumulate_x:
  "fst (fold (accumulate_x env mF s bl det id_y ff) xs GF) =
     fold (\<lambda>id_x. add_entry env s (bl, det, id_y, id_x)) xs (fst GF)"
  by (induction xs arbitrary: GF) (simp_all add: accumulate_x_def add_entry_def Let_def)

lemma fst_fold_accumulate_y:
  "fst (fold (accumulate_y env cfg mF s bl det) ys GF) =
     fold (\<lambda>id_y. fold (\<lambda>id_x. add_entry env s (bl, det, id_y, id_x)) [0..<m_det_size env det])
       ys (fst GF)"
  by (induction ys arbitrary: GF) (simp_all add: accumulate_y_def Let_def fst_fold_accumulate_x)

lemma fst_fold_accumulate_block:
  "fst (fold (accumulate_block env cfg mF s) bs GF) =
     fold (\<lambda>bd. fold (\<lambda>id_y. fold (\<lambda>id_x. add_entry env s (fst bd, snd bd, id_y, id_x))
                              [0..<m_det_size env (snd bd)])
                  [0..<m_det_size env (snd bd)])
       bs (fst GF)"
  by (induction bs arbitrary: GF) (simp_all add: accumulate_block_def fst_fold_accumulate_y)

lemma fold_det_entries:
  "fold (add_entry env s) (det_entries env ds) G =
     fold (\<lambda>bd. fold (\<lambda>id_y. fold (\<lambda>id_x. add_entry env s (fst bd, snd bd, id_y, id_x))
                              [0..<m_det_size env (snd bd)])
                  [0..<m_det_size env (snd bd)])
       (enumerate 0 ds) G"
  by (simp add: det_entries_def fold_concat_map fold_map comp_def)





subsection \<open>The example measure\<close>

lemmas measure_ex_defs = ex_measure_env_def ex_params_def ex_config_def ex_arith_def one_det_def
  ex_closest_mesh_pt_def G_F_tau_init_def zero_block_gf_def

lemma ex_accumulate:
  "accumulate ex_measure_env ex_config [one_det] (G_F_tau_init (ex_params mF) True) (Finite 1) =
     ex_measured mF"
  by (simp add: accumulate_def accumulate_block_def accumulate_y_def accumulate_x_def
        fprefactor_def fprefactor_step_def fp_sub_def
        entry_val_def entry_bin_def add_at_def enumerate_eq_zip Let_def measure_ex_defs ex_measured_def
        eval_nat_numeral)

lemma ex_collect:
  "collect_results ex_measure_env (ex_measured mF) ex_results =
     (\<lparr>beta = Finite 100, measure_F_tau = mF, gf_struct = [(''up'', 1)],
       G_tau = [], F_tau = (if mF then [] else [[[[Finite 0]], [[Finite 0]], [[Finite 0]]]]),
       Z = Finite 2\<rparr>,
      \<lparr>res_G_tau = Some [[[[Finite 0]], [[Finite 0]], [[Finite (3 / 2500)]]]],
       res_F_tau = (if mF then Some [[[[Finite 0]], [[Finite 0]], [[Finite 0]]]] else None)\<rparr>)"
  by (simp add: collect_results_def normalize_def gf_div_def fix_ends_def double_bin_def
        Let_def ex_measured_def ex_results_def ex_measure_env_def ex_arith_def eval_nat_numeral)




lemma ex_normalize:
  "gf_div ex_arith [[[[Finite 0]], [[Finite 0]], [[Finite (- 6)]]]] (Finite (- 10000)) ! 0 ! 2 ! 0 ! 0 =
     Finite (3 / 5000)"
  "fix_ends ex_arith [[[Finite 0]], [[Finite 0]], [[Finite (3 / 5000)]]] ! 2 = [[Finite (3 / 2500)]]"
  "fix_ends ex_arith [[[Finite 1]], [[Finite 1]], [[Finite 1]]] ! 1 = [[Finite 1]]"
  by (simp_all add: ex_arith_def gf_div_def fix_ends_def double_bin_def eval_nat_numeral)

subsection \<open>Accumulation\<close>

lemma nth_list_update_gen: "xs[i := x] ! j = (if i = j \<and> i < length xs then x else xs ! j)"
  by (cases "i < length xs") (auto simp: nth_list_update list_update_beyond not_less)

lemma add_at_nth:
  "bl < length G \<Longrightarrow> k < length (G ! bl) \<Longrightarrow> i < length (G ! bl ! k) \<Longrightarrow> j < length (G ! bl ! k ! i) \<Longrightarrow>
     add_at ar G bl k i j v ! bl ! k ! i ! j = fp_add ar (G ! bl ! k ! i ! j) v"
  by (simp add: add_at_def)

lemma add_at_other:
  "(bl', k', i', j') \<noteq> (bl, k, i, j) \<Longrightarrow>
     add_at ar G bl k i j v ! bl' ! k' ! i' ! j' = G ! bl' ! k' ! i' ! j'"
  by (auto simp: add_at_def nth_list_update_gen)

lemma ex_accumulate_two:
  "accumulate ex_measure_env ex_config [two_det] ex_started (Finite 1) =
     \<lparr> beta = Finite 100, measure_F_tau = False, gf_struct = [(''up'', 2)],
       G_tau = [[[[Finite 1, Finite 2], [Finite 7, Finite 4]],
                 [[Finite 5, Finite 1], [Finite 7, Finite 8]],
                 [[Finite 6, Finite 10], [Finite 11, Finite 6]]]],
       F_tau = [[[[Finite 0, Finite 0], [Finite 0, Finite 0]],
                 [[Finite 0, Finite 0], [Finite 0, Finite 0]],
                 [[Finite 0, Finite 0], [Finite 0, Finite 0]]]],
       Z = Finite 8 \<rparr>"
  by (simp add: accumulate_def accumulate_block_def accumulate_y_def accumulate_x_def
        entry_val_def entry_bin_def add_at_def enumerate_eq_zip Let_def
        ex_measure_env_def ex_arith_def two_det_def ex_started_def ex_closest_mesh_pt_def
        eval_nat_numeral upt_rec)

lemma ex_accumulate_two_fields:
  "Z (accumulate ex_measure_env ex_config [two_det] ex_started (Finite 1)) = Finite 8"
  "G_tau (accumulate ex_measure_env ex_config [two_det] ex_started (Finite 1)) =
     [[[[Finite 1, Finite 2], [Finite 7, Finite 4]],
       [[Finite 5, Finite 1], [Finite 7, Finite 8]],
       [[Finite 6, Finite 10], [Finite 11, Finite 6]]]]"
  by (simp_all add: ex_accumulate_two)

lemma ex_det_entries_two:
  "det_entries ex_measure_env [two_det] =
     [(0, two_det, 0, 0), (0, two_det, 0, 1), (0, two_det, 1, 0), (0, two_det, 1, 1)]"
  by (simp add: det_entries_def enumerate_eq_zip ex_measure_env_def two_det_def eval_nat_numeral upt_rec)

lemma ex_add_entry_two:
  "add_entry ex_measure_env (Finite 1) (0, two_det, 1, 0) (G_tau ex_started) =
     [[[[Finite 1, Finite 2], [Finite 7, Finite 4]],
       [[Finite 5, Finite 6], [Finite 7, Finite 8]],
       [[Finite 9, Finite 10], [Finite 11, Finite 12]]]]"
  by (simp add: add_entry_def entry_val_def entry_bin_def add_at_def ex_measure_env_def
        ex_arith_def two_det_def ex_started_def ex_closest_mesh_pt_def)

lemma ex_add_at:
  "add_at ex_arith (G_tau ex_started) 0 2 0 0 (Finite (- 3)) ! 0 ! 2 ! 0 ! 0 = Finite 6"
  "add_at ex_arith (G_tau ex_started) 0 2 0 0 (Finite (- 3)) ! 0 ! 2 ! 1 ! 1 = Finite 12"
  by (simp_all add: add_at_def ex_started_def ex_arith_def eval_nat_numeral)

text \<open>
  Claim C7: \<open>accumulate(s)\<close> adds exactly \<open>s\<close> to \<open>Z\<close>, and the primary histogram after
  it is the one before it with one addition made for every entry of \<open>det_entries\<close>, in
  the order of the loops. The entries are the triples of a color (block), a row and a
  column of that color's determinant, each below the size of the determinant. The
  addition for an entry puts \<open>s * inverse_matrix(row, column)\<close>, with \<open>s\<close> negated exactly
  when the time of the row key is strictly smaller than the time of the column key, into
  the bin closest to the difference of the two times, at the indices of the two keys.
  An addition (\<open>add_at\<close>) makes the number at its place the sum of the number that was
  there and of the number added, and leaves the number at every other place as it was.
\<close>

theorem accumulate_adds_entries:
  "Z (accumulate env cfg ds ms s) = fp_add (m_arith env) (Z ms) s \<and>
   G_tau (accumulate env cfg ds ms s) = fold (add_entry env s) (det_entries env ds) (G_tau ms) \<and>
   ((bl, det, id_y, id_x) \<in> set (det_entries env ds) \<longleftrightarrow>
      bl < length ds \<and> det = ds ! bl \<and> id_y < m_det_size env det \<and> id_x < m_det_size env det) \<and>
   add_entry env s (bl, det, id_y, id_x) G =
     add_at (m_arith env) G bl
       (closest_mesh_pt env (m_tau_double env (fst (m_get_y env det id_y) - fst (m_get_x env det id_x))))
       (snd (m_get_y env det id_y)) (snd (m_get_x env det id_x))
       (fp_mul (m_arith env)
          (if fst (m_get_y env det id_y) < fst (m_get_x env det id_x) then fneg s else s)
          (inverse_matrix env det id_y id_x)) \<and>
   (b < length H \<and> k < length (H ! b) \<and> i < length (H ! b ! k) \<and> j < length (H ! b ! k ! i) \<longrightarrow>
      add_at ar H b k i j v ! b ! k ! i ! j = fp_add ar (H ! b ! k ! i ! j) v) \<and>
   ((b', k', i', j') \<noteq> (b, k, i, j) \<longrightarrow>
      add_at ar H b k i j v ! b' ! k' ! i' ! j' = H ! b' ! k' ! i' ! j')"
proof -
  have "Z (accumulate env cfg ds ms s) = fp_add (m_arith env) (Z ms) s"
    by (simp add: accumulate_def Let_def)
  moreover have "G_tau (accumulate env cfg ds ms s) =
                   fold (add_entry env s) (det_entries env ds) (G_tau ms)"
    by (simp add: accumulate_def Let_def fst_fold_accumulate_block fold_det_entries)
  moreover have "add_entry env s (bl, det, id_y, id_x) G =
     add_at (m_arith env) G bl
       (closest_mesh_pt env (m_tau_double env (fst (m_get_y env det id_y) - fst (m_get_x env det id_x))))
       (snd (m_get_y env det id_y)) (snd (m_get_x env det id_x))
       (fp_mul (m_arith env)
          (if fst (m_get_y env det id_y) < fst (m_get_x env det id_x) then fneg s else s)
          (inverse_matrix env det id_y id_x))"
    by (simp only: add_entry_def entry_val_flip entry_bin_def prod.case)
  moreover have "b < length H \<and> k < length (H ! b) \<and> i < length (H ! b ! k) \<and>
        j < length (H ! b ! k ! i) \<longrightarrow>
      add_at ar H b k i j v ! b ! k ! i ! j = fp_add ar (H ! b ! k ! i ! j) v"
    using add_at_nth [of b H k i j ar v] by blast
  moreover have "(b', k', i', j') \<noteq> (b, k, i, j) \<longrightarrow>
      add_at ar H b k i j v ! b' ! k' ! i' ! j' = H ! b' ! k' ! i' ! j'"
    using add_at_other [of b' k' i' j' b k i j ar H v] by blast
  ultimately show ?thesis
    using in_det_entries [of bl det id_y id_x env ds] by blast
qed

theorem accumulate_adds_entries_witness:
  "Z (accumulate ex_measure_env ex_config [two_det] ex_started (Finite 1)) = Finite 8 \<and>
   G_tau (accumulate ex_measure_env ex_config [two_det] ex_started (Finite 1)) =
     [[[[Finite 1, Finite 2], [Finite 7, Finite 4]],
       [[Finite 5, Finite 1], [Finite 7, Finite 8]],
       [[Finite 6, Finite 10], [Finite 11, Finite 6]]]] \<and>
   det_entries ex_measure_env [two_det] =
     [(0, two_det, 0, 0), (0, two_det, 0, 1), (0, two_det, 1, 0), (0, two_det, 1, 1)] \<and>
   add_entry ex_measure_env (Finite 1) (0, two_det, 1, 0) (G_tau ex_started) =
     [[[[Finite 1, Finite 2], [Finite 7, Finite 4]],
       [[Finite 5, Finite 6], [Finite 7, Finite 8]],
       [[Finite 9, Finite 10], [Finite 11, Finite 12]]]] \<and>
   add_at ex_arith (G_tau ex_started) 0 2 0 0 (Finite (- 3)) ! 0 ! 2 ! 0 ! 0 = Finite 6 \<and>
   add_at ex_arith (G_tau ex_started) 0 2 0 0 (Finite (- 3)) ! 0 ! 2 ! 1 ! 1 = Finite 12"
  using accumulate_adds_entries [where env = ex_measure_env and cfg = ex_config
          and ds = "[two_det]" and ms = ex_started and s = "Finite 1"
          and bl = 0 and det = two_det and id_y = 1 and id_x = 0 and G = "G_tau ex_started"
          and ar = ex_arith and H = "G_tau ex_started" and b = 0 and k = 2 and i = 0 and j = 0
          and v = "Finite (- 3)" and b' = 0 and k' = 2 and i' = 1 and j' = 1]
  by (simp only: ex_accumulate_two_fields ex_det_entries_two ex_add_entry_two ex_add_at simp_thms)

subsection \<open>Collection\<close>

lemma length_double_bin: "length (double_bin ar k g) = length g"
  by (simp add: double_bin_def)

lemma nth_double_bin:
  "k < length g \<Longrightarrow>
     double_bin ar j g ! k = (if k = j then map (map (\<lambda>v. fp_mul ar v (Finite 2))) (g ! k) else g ! k)"
  by (simp add: double_bin_def nth_list_update)

lemma nth_fix_ends:
  assumes "2 \<le> length g" and "k < length g"
  shows "fix_ends ar g ! k =
           (if k = 0 \<or> k = length g - 1 then map (map (\<lambda>v. fp_mul ar v (Finite 2))) (g ! k)
            else g ! k)"
proof -
  have "length g - 1 \<noteq> 0" using assms(1) by simp
  then show ?thesis
    using assms(2) by (auto simp: fix_ends_def nth_double_bin length_double_bin)
qed

lemma nth_gf_div:
  "b < length G \<Longrightarrow> k < length (G ! b) \<Longrightarrow> i < length (G ! b ! k) \<Longrightarrow> j < length (G ! b ! k ! i) \<Longrightarrow>
     gf_div ar G d ! b ! k ! i ! j = fp_div ar (G ! b ! k ! i ! j) d"
  by (simp add: gf_div_def)

text \<open>
  Claim C8: \<open>collect_results\<close> publishes the primary histogram, and the secondary one
  when it is enabled, computed in this order: the reduction over the workers of \<open>Z\<close> and
  of the histogram, then the division of every number by \<open>-beta * Z * delta\<close> with the
  reduced \<open>Z\<close>, then the doubling of the first and of the last bin of every block. With
  at least two bins, the first and the last bin are doubled and every other bin is
  left as it is. The reduction is the primitive of the environment.
\<close>

theorem collect_results_normalizes:
  "res_G_tau (snd (collect_results env ms res)) =
     Some (map (fix_ends (m_arith env))
             (gf_div (m_arith env) (all_reduce_gf env (G_tau ms))
                (fp_mul (m_arith env)
                   (fp_mul (m_arith env) (fneg (beta ms)) (all_reduce_double env (Z ms)))
                   (mesh_delta env (length (all_reduce_gf env (G_tau ms) ! 0)))))) \<and>
   (measure_F_tau ms \<longrightarrow>
      res_F_tau (snd (collect_results env ms res)) =
        Some (map (fix_ends (m_arith env))
                (gf_div (m_arith env) (all_reduce_gf env (F_tau ms))
                   (fp_mul (m_arith env)
                      (fp_mul (m_arith env) (fneg (beta ms)) (all_reduce_double env (Z ms)))
                      (mesh_delta env (length (all_reduce_gf env (F_tau ms) ! 0))))))) \<and>
   (b < length G \<and> k < length (G ! b) \<and> i < length (G ! b ! k) \<and> j < length (G ! b ! k ! i) \<longrightarrow>
      gf_div ar G d ! b ! k ! i ! j = fp_div ar (G ! b ! k ! i ! j) d) \<and>
   (2 \<le> length g \<and> k' < length g \<longrightarrow>
      fix_ends ar g ! k' =
        (if k' = 0 \<or> k' = length g - 1 then map (map (\<lambda>v. fp_mul ar v (Finite 2))) (g ! k')
         else g ! k'))"
proof -
  have "res_G_tau (snd (collect_results env ms res)) =
     Some (map (fix_ends (m_arith env))
             (gf_div (m_arith env) (all_reduce_gf env (G_tau ms))
                (fp_mul (m_arith env)
                   (fp_mul (m_arith env) (fneg (beta ms)) (all_reduce_double env (Z ms)))
                   (mesh_delta env (length (all_reduce_gf env (G_tau ms) ! 0))))))"
    by (simp add: collect_results_def normalize_def Let_def)
  moreover have "measure_F_tau ms \<longrightarrow>
      res_F_tau (snd (collect_results env ms res)) =
        Some (map (fix_ends (m_arith env))
                (gf_div (m_arith env) (all_reduce_gf env (F_tau ms))
                   (fp_mul (m_arith env)
                      (fp_mul (m_arith env) (fneg (beta ms)) (all_reduce_double env (Z ms)))
                      (mesh_delta env (length (all_reduce_gf env (F_tau ms) ! 0))))))"
    by (simp add: collect_results_def normalize_def Let_def)
  ultimately show ?thesis
    using nth_gf_div [of b G k i j ar d] nth_fix_ends [of g k' ar]
    by simp
qed

theorem collect_results_normalizes_witness:
  "res_G_tau (snd (collect_results ex_measure_env (ex_measured True) ex_results)) =
     Some [[[[Finite 0]], [[Finite 0]], [[Finite (3 / 2500)]]]] \<and>
   res_F_tau (snd (collect_results ex_measure_env (ex_measured True) ex_results)) =
     Some [[[[Finite 0]], [[Finite 0]], [[Finite 0]]]] \<and>
   gf_div ex_arith [[[[Finite 0]], [[Finite 0]], [[Finite (- 6)]]]] (Finite (- 10000)) ! 0 ! 2 ! 0 ! 0 =
     Finite (3 / 5000) \<and>
   fix_ends ex_arith [[[Finite 0]], [[Finite 0]], [[Finite (3 / 5000)]]] ! 2 = [[Finite (3 / 2500)]] \<and>
   fix_ends ex_arith [[[Finite 1]], [[Finite 1]], [[Finite 1]]] ! 1 = [[Finite 1]]"
  using collect_results_normalizes [where env = ex_measure_env and ms = "ex_measured True"
          and res = ex_results and b = 0 and k = 2 and i = 0 and j = 0 and ar = ex_arith
          and G = "[[[[Finite 0]], [[Finite 0]], [[Finite (- 6)]]]]" and d = "Finite (- 10000)"
          and g = "[[[Finite 1]], [[Finite 1]], [[Finite 1]]]" and k' = 1]
  by (simp only: ex_collect ex_normalize snd_conv results_t.simps if_True simp_thms)

subsection \<open>The secondary histogram\<close>




end
